theory Spec2Isabelle
  imports Main
begin

section \<open>The bank ledger of \<^verbatim>\<open>EX/ex11_bank/bank.py\<close>\<close>

text \<open>
  The Python classes \<^verbatim>\<open>Person\<close>, \<^verbatim>\<open>Bank\<close>, \<^verbatim>\<open>Transaction\<close> and \<^verbatim>\<open>Account\<close> are
  objects with identity: none of them defines \<^verbatim>\<open>__eq__\<close>, so \<^verbatim>\<open>==\<close>, \<^verbatim>\<open>!=\<close> and
  \<^verbatim>\<open>in\<close> compare references. A reference is modelled as an address (a natural number) into
  a store, one store per class; a store is a total function, since a Python reference
  never dangles. Account objects are the only ones the modelled code creates, so the
  store carries the next free account address.

  Amounts and balances are Python numbers; they are modelled as unbounded integers
  (the bank opens every account with the integer balance \<^verbatim>\<open>0\<close>). A
  \<^verbatim>\<open>datetime.date\<close> is modelled by its ordinal, and the two inputs the code takes from
  its environment, \<^verbatim>\<open>datetime.date.today()\<close> and the random account number, are
  parameters of the operations that read them.
\<close>

type_synonym pid = nat
type_synonym bid = nat
type_synonym aid = nat
type_synonym date = nat

datatype error = PersonError | TransactionError

record Person =
  first_name :: string
  last_name :: string
  age :: int
  bank_account :: "aid option"

record 'n Transaction =
  amount :: 'n
  date :: date
  sender_account :: aid
  receiver_account :: aid
  is_from_atm :: bool

record 'n Bank =
  name :: string
  customers :: "pid list"
  bank_transactions :: "'n Transaction list"

record 'n Account =
  balance :: 'n
  person :: pid
  bank :: bid
  transactions :: "'n Transaction list"
  number :: string

record 'n state =
  persons :: "pid \<Rightarrow> Person"
  banks :: "bid \<Rightarrow> 'n Bank"
  accounts :: "aid \<Rightarrow> 'n Account"
  next_account :: aid

subsection \<open>Person\<close>

text \<open>\<^verbatim>\<open>Person.__init__\<close>: the object exists only when the constructor returns.\<close>

definition Person_init :: "string \<Rightarrow> string \<Rightarrow> int \<Rightarrow> error + Person" where
  "Person_init fn ln a =
     (if a \<ge> 1
      then Inr \<lparr>first_name = fn, last_name = ln, age = a, bank_account = None\<rparr>
      else Inl PersonError)"

definition full_name :: "Person \<Rightarrow> string" where
  "full_name p = first_name p @ '' '' @ last_name p"

text \<open>
  The setter of \<^verbatim>\<open>age\<close> stores the value first and tests the stored field afterwards.
  An exception does not undo the store, so the result is the raised error (if any)
  together with the object as the call leaves it.
\<close>

definition set_age :: "int \<Rightarrow> Person \<Rightarrow> error option \<times> Person" where
  "set_age v p =
     (let p1 = p\<lparr>age := v\<rparr>
      in if age p1 \<le> 0 then (Some PersonError, p1) else (None, p1))"

subsection \<open>Attribute updates on the store\<close>

definition set_balance :: "aid \<Rightarrow> 'n \<Rightarrow> 'n state \<Rightarrow> 'n state" where
  "set_balance a v s = s\<lparr>accounts := (accounts s)(a := (accounts s a)\<lparr>balance := v\<rparr>)\<rparr>"

definition account_append :: "aid \<Rightarrow> 'n Transaction \<Rightarrow> 'n state \<Rightarrow> 'n state" where
  "account_append a t s =
     s\<lparr>accounts := (accounts s)(a := (accounts s a)\<lparr>transactions := transactions (accounts s a) @ [t]\<rparr>)\<rparr>"

definition bank_append :: "bid \<Rightarrow> 'n Transaction \<Rightarrow> 'n state \<Rightarrow> 'n state" where
  "bank_append b t s =
     s\<lparr>banks := (banks s)(b := (banks s b)\<lparr>bank_transactions := bank_transactions (banks s b) @ [t]\<rparr>)\<rparr>"

subsection \<open>Transaction\<close>

definition Transaction_init :: "'n \<Rightarrow> date \<Rightarrow> aid \<Rightarrow> aid \<Rightarrow> bool \<Rightarrow> 'n Transaction" where
  "Transaction_init amt d snd_acc rcv_acc atm =
     \<lparr>amount = amt, date = d, sender_account = snd_acc, receiver_account = rcv_acc,
      is_from_atm = atm\<rparr>"

subsection \<open>Bank\<close>

definition Bank_init :: "string \<Rightarrow> 'n Bank" where
  "Bank_init nm = \<lparr>name = nm, customers = [], bank_transactions = []\<rparr>"

text \<open>\<^verbatim>\<open>Account.__init__\<close>; the random account number is the parameter \<open>num\<close>.\<close>

definition Account_init :: "'n \<Rightarrow> pid \<Rightarrow> bid \<Rightarrow> string \<Rightarrow> 'n Account" where
  "Account_init bal p b num =
     \<lparr>balance = bal, person = p, bank = b, transactions = [], number = num\<rparr>"

text \<open>
  \<^verbatim>\<open>Account(0, person, self)\<close> allocates the next free account address.
\<close>

definition add_customer :: "bid \<Rightarrow> pid \<Rightarrow> string \<Rightarrow> int state \<Rightarrow> bool \<times> int state" where
  "add_customer self p num s =
     (if p \<notin> set (customers (banks s self))
      then
        (let a = next_account s;
             s1 = s\<lparr>accounts := (accounts s)(a := Account_init 0 p self num),
                    next_account := Suc a\<rparr>;
             s2 = s1\<lparr>persons := (persons s1)(p := (persons s1 p)\<lparr>bank_account := Some a\<rparr>)\<rparr>;
             s3 = s2\<lparr>banks := (banks s2)(self :=
                      (banks s2 self)\<lparr>customers := customers (banks s2 self) @ [p]\<rparr>)\<rparr>
         in (True, s3))
      else (False, s))"

definition remove_customer :: "bid \<Rightarrow> pid \<Rightarrow> int state \<Rightarrow> bool \<times> int state" where
  "remove_customer self p s =
     (if p \<in> set (customers (banks s self))
      then
        (let s1 = s\<lparr>persons := (persons s)(p := (persons s p)\<lparr>bank_account := None\<rparr>)\<rparr>;
             s2 = s1\<lparr>banks := (banks s1)(self :=
                      (banks s1 self)\<lparr>customers := remove1 p (customers (banks s1 self))\<rparr>)\<rparr>
         in (True, s2))
      else (False, s))"

subsection \<open>Account\<close>

definition deposit :: "aid \<Rightarrow> int \<Rightarrow> bool \<Rightarrow> date \<Rightarrow> int state \<Rightarrow> error option \<times> int state" where
  "deposit self amt atm today s =
     (if amt \<le> 0 then (Some TransactionError, s)
      else
        (let s1 = set_balance self (balance (accounts s self) + amt) s
         in if atm
            then
              (let t = Transaction_init amt today self self atm;
                   s2 = account_append self t s1;
                   s3 = bank_append (bank (accounts s2 self)) t s2
               in (None, s3))
            else (None, s1)))"

definition withdraw :: "aid \<Rightarrow> int \<Rightarrow> bool \<Rightarrow> date \<Rightarrow> int state \<Rightarrow> error option \<times> int state" where
  "withdraw self amt atm today s =
     (if amt \<le> 0 \<or> balance (accounts s self) < amt then (Some TransactionError, s)
      else
        (let s1 = set_balance self (balance (accounts s self) - amt) s
         in if atm
            then
              (let t = Transaction_init (- amt) today self self atm;
                   s2 = account_append self t s1;
                   s3 = bank_append (bank (accounts s2 self)) t s2
               in (None, s3))
            else (None, s1)))"

text \<open>
  The tail of \<^verbatim>\<open>transfer\<close> that both branches share: the credit and the three appends
  after it. An exception of \<^verbatim>\<open>deposit\<close> leaves the method at once, with the store as
  it is at that point.
\<close>

definition transfer_credit :: "aid \<Rightarrow> int \<Rightarrow> aid \<Rightarrow> int Transaction \<Rightarrow> date \<Rightarrow> int state \<Rightarrow> error option \<times> int state" where
  "transfer_credit self amt rcv t today s =
     (case deposit rcv amt False today s of
        (Some e, s1) \<Rightarrow> (Some e, s1)
      | (None, s1) \<Rightarrow>
          (let s2 = account_append rcv t s1;
               s3 = bank_append (bank (accounts s2 self)) t s2;
               s4 = account_append self t s3
           in (None, s4)))"

definition transfer :: "aid \<Rightarrow> int \<Rightarrow> aid \<Rightarrow> date \<Rightarrow> int state \<Rightarrow> error option \<times> int state" where
  "transfer self amt rcv today s =
     (if (balance (accounts s self) \<ge> amt + 5
            \<and> person (accounts s self) \<noteq> person (accounts s rcv))
         \<or> rcv \<noteq> self
      then
        (let t = Transaction_init amt today self rcv False
         in if bank (accounts s self) \<noteq> bank (accounts s rcv)
            then
              (case withdraw self (amt + 5) False today s of
                 (Some e, s1) \<Rightarrow> (Some e, s1)
               | (None, s1) \<Rightarrow>
                   transfer_credit self amt rcv t today
                     (bank_append (bank (accounts s1 rcv)) t s1))
            else
              (case withdraw self amt False today s of
                 (Some e, s1) \<Rightarrow> (Some e, s1)
               | (None, s1) \<Rightarrow> transfer_credit self amt rcv t today s1))
      else (Some TransactionError, s))"

definition account_statement :: "aid \<Rightarrow> date \<Rightarrow> date \<Rightarrow> int state \<Rightarrow> int Transaction list" where
  "account_statement self from_date to_date s =
     fold (\<lambda>i account_statement_list.
             if from_date \<le> date i \<and> date i \<le> to_date
             then account_statement_list @ [i] else account_statement_list)
          (transactions (accounts s self)) []"

definition get_debit_turnover :: "aid \<Rightarrow> date \<Rightarrow> date \<Rightarrow> int state \<Rightarrow> int" where
  "get_debit_turnover self from_date to_date s =
     fold (\<lambda>i counter.
             if from_date \<le> date i \<and> date i \<le> to_date
             then (if (amount i > 0 \<and> is_from_atm i)
                      \<or> (self = receiver_account i \<and> \<not> is_from_atm i)
                   then counter + amount i else counter)
             else counter)
          (transactions (accounts s self)) 0"

definition get_credit_turnover :: "aid \<Rightarrow> date \<Rightarrow> date \<Rightarrow> int state \<Rightarrow> int" where
  "get_credit_turnover self from_date to_date s =
     fold (\<lambda>i counter.
             if from_date \<le> date i \<and> date i \<le> to_date
             then (if amount i < 0 \<or> (self = sender_account i \<and> \<not> is_from_atm i)
                   then counter - \<bar>amount i\<bar> else counter)
             else counter)
          (transactions (accounts s self)) 0"

definition get_net_turnover :: "aid \<Rightarrow> date \<Rightarrow> date \<Rightarrow> int state \<Rightarrow> int" where
  "get_net_turnover self from_date to_date s =
     get_debit_turnover self from_date to_date s + get_credit_turnover self from_date to_date s"

subsection \<open>Sequences of calls\<close>

text \<open>
  A client of the ledger makes one call after another and may catch what a call raises;
  the store then stays as the failed call left it.
\<close>

datatype call =
    Deposit aid int bool date
  | Withdraw aid int bool date
  | Transfer aid int aid date
  | AddCustomer bid pid string
  | RemoveCustomer bid pid

fun call_state :: "call \<Rightarrow> int state \<Rightarrow> int state" where
  "call_state (Deposit a amt atm d) s = snd (deposit a amt atm d s)"
| "call_state (Withdraw a amt atm d) s = snd (withdraw a amt atm d s)"
| "call_state (Transfer a amt r d) s = snd (transfer a amt r d s)"
| "call_state (AddCustomer b p num) s = snd (add_customer b p num s)"
| "call_state (RemoveCustomer b p) s = snd (remove_customer b p s)"

fun calls :: "call list \<Rightarrow> int state \<Rightarrow> int state" where
  "calls [] s = s"
| "calls (c # cs) s = calls cs (call_state c s)"

subsection \<open>Example ledgers\<close>

text \<open>
  A store in which nothing has happened yet: every person was constructed with a valid
  age and has no account, every bank is as \<^verbatim>\<open>Bank.__init__\<close> leaves it, and no account
  has been allocated.
\<close>

definition new_ledger :: "int state" where
  "new_ledger =
     \<lparr>persons = (\<lambda>_. \<lparr>first_name = ''Mari'', last_name = ''Maasikas'', age = 30,
                        bank_account = None\<rparr>),
      banks = (\<lambda>_. Bank_init ''Pank''),
      accounts = (\<lambda>_. Account_init 0 0 0 []),
      next_account = 0\<rparr>"

text \<open>Persons 0 and 1 are customers of bank 0; person 0 has deposited 50.\<close>

definition same_bank_ledger :: "int state" where
  "same_bank_ledger =
     calls [AddCustomer 0 0 ''EE1'', AddCustomer 0 1 ''EE2'', Deposit 0 50 True 1] new_ledger"

text \<open>Person 0 is a customer of bank 0 and has deposited 100; person 1 is a customer of bank 1.\<close>

definition two_bank_ledger :: "int state" where
  "two_bank_ledger =
     calls [AddCustomer 0 0 ''EE1'', AddCustomer 1 1 ''EE2'', Deposit 0 100 True 1] new_ledger"

text \<open>
  Person 0 became a customer of bank 0 (account 0), deposited 100 there, and then became
  a customer of bank 1 as well (account 1).
\<close>

definition two_account_ledger :: "int state" where
  "two_account_ledger =
     calls [AddCustomer 0 0 ''EE1'', Deposit 0 100 True 1, AddCustomer 1 0 ''EE2''] new_ledger"


subsection \<open>Reference definitions for the turnover reports\<close>

text \<open>
  What the three mutators can put into an account's own history: an ATM record, or the
  record of a transfer, whose amount is positive.
\<close>

definition transfers_positive :: "int Transaction list \<Rightarrow> bool" where
  "transfers_positive ts = list_all (\<lambda>t. \<not> is_from_atm t \<longrightarrow> 0 < amount t) ts"

text \<open>
  The credit turnover as the specification words it, to be compared with
  \<open>get_credit_turnover\<close>: the money that left the account in the window, as a negative
  number; that is the ATM withdrawals (ATM records with a negative amount) and the
  transfers the account sent (records that are not from an ATM and name it as sender).
\<close>

definition credit_turnover_spec :: "aid \<Rightarrow> date \<Rightarrow> date \<Rightarrow> int state \<Rightarrow> int" where
  "credit_turnover_spec self from_date to_date s =
     (let window = filter (\<lambda>t. from_date \<le> date t \<and> date t \<le> to_date)
                     (transactions (accounts s self));
          atm_withdrawals = filter (\<lambda>t. is_from_atm t \<and> amount t < 0) window;
          sent_transfers = filter (\<lambda>t. sender_account t = self \<and> \<not> is_from_atm t) window
      in - (sum_list (map (\<lambda>t. - amount t) atm_withdrawals)
            + sum_list (map amount sent_transfers)))"

section \<open>Basic facts\<close>

lemmas upd_defs =
  set_balance_def account_append_def bank_append_def
  Transaction_init_def Account_init_def Bank_init_def

lemmas ledger_defs =
  new_ledger_def same_bank_ledger_def two_bank_ledger_def two_account_ledger_def

lemmas eval_defs = ledger_defs add_customer_def deposit_def upd_defs Let_def

lemma two_bank_ledger_accounts:
  "accounts two_bank_ledger 0 =
     \<lparr>balance = 100, person = 0, bank = 0,
      transactions = [Transaction_init 100 1 0 0 True], number = ''EE1''\<rparr>"
  "accounts two_bank_ledger (Suc 0) =
     \<lparr>balance = 0, person = Suc 0, bank = Suc 0, transactions = [], number = ''EE2''\<rparr>"
  by (simp_all add: eval_defs)

lemma two_bank_ledger_banks:
  "banks two_bank_ledger 0 =
     \<lparr>name = ''Pank'', customers = [0], bank_transactions = [Transaction_init 100 1 0 0 True]\<rparr>"
  "banks two_bank_ledger (Suc 0) = \<lparr>name = ''Pank'', customers = [Suc 0], bank_transactions = []\<rparr>"
  by (simp_all add: eval_defs)



lemma two_account_ledger_accounts:
  "accounts two_account_ledger 0 =
     \<lparr>balance = 100, person = 0, bank = 0,
      transactions = [Transaction_init 100 1 0 0 True], number = ''EE1''\<rparr>"
  "accounts two_account_ledger (Suc 0) =
     \<lparr>balance = 0, person = 0, bank = Suc 0, transactions = [], number = ''EE2''\<rparr>"
  by (simp_all add: eval_defs)

lemma withdraw_fails_clean:
  "fst (withdraw self amt atm today s) \<noteq> None \<Longrightarrow>
   withdraw self amt atm today s = (Some TransactionError, s)"
  by (simp add: withdraw_def Let_def split: if_splits)

lemma deposit_positive: "amt > 0 \<Longrightarrow> fst (deposit self amt atm today s) = None"
  by (simp add: deposit_def Let_def)

lemma transfer_credit_positive:
  "amt > 0 \<Longrightarrow> fst (transfer_credit self amt rcv t today s) = None"
  using deposit_positive[of amt rcv False today s]
  by (cases "deposit rcv amt False today s") (simp add: transfer_credit_def Let_def)

lemma withdraw_False_transactions:
  "transactions (accounts (snd (withdraw self amt False today s)) a) = transactions (accounts s a)"
  by (simp add: withdraw_def set_balance_def Let_def)

lemma bank_append_transactions:
  "transactions (accounts (bank_append b t s) a) = transactions (accounts s a)"
  by (simp add: bank_append_def)

lemma transfer_credit_transactions:
  "rcv \<noteq> self \<Longrightarrow>
   transactions (accounts (snd (transfer_credit self amt rcv t today s)) a) =
     (if amt > 0 \<and> (a = self \<or> a = rcv) then transactions (accounts s a) @ [t]
      else transactions (accounts s a))"
  by (simp add: transfer_credit_def deposit_def set_balance_def account_append_def
      bank_append_def Let_def)

section \<open>Person: the age check\<close>

lemma Person_init_age:
  "(a \<le> 0 \<longrightarrow> Person_init fn ln a = Inl PersonError)
   \<and> (a \<ge> 1 \<longrightarrow> (\<exists>p. Person_init fn ln a = Inr p \<and> age p = a))"
  by (simp add: Person_init_def)

lemma set_age_result:
  "(a \<le> 0 \<longrightarrow> fst (set_age a p) = Some PersonError)
   \<and> (a \<ge> 1 \<longrightarrow> fst (set_age a p) = None \<and> age (snd (set_age a p)) = a)"
  by (simp add: set_age_def)

text \<open>
  C5. Constructing a person with an age below 1 and setting such an age both raise, and
  ages from 1 on are accepted and read back (the two lemmas above). The part of C5 that
  the setter does not meet: a failed set is to leave the previous, valid age in place.
  The setter assigns before it tests, so a person constructed with age 30 reads age 0
  after the rejected assignment of 0.
\<close>

theorem set_age_keeps_invalid_value:
  "Person_init ''Mari'' ''Maasikas'' 30 =
     Inr \<lparr>first_name = ''Mari'', last_name = ''Maasikas'', age = 30, bank_account = None\<rparr>
   \<and> fst (set_age 0 \<lparr>first_name = ''Mari'', last_name = ''Maasikas'', age = 30,
                      bank_account = None\<rparr>) = Some PersonError
   \<and> age (snd (set_age 0 \<lparr>first_name = ''Mari'', last_name = ''Maasikas'', age = 30,
                           bank_account = None\<rparr>)) = 0"
  by (simp add: Person_init_def set_age_def)

section \<open>Account: withdraw\<close>




section \<open>Account: transfer\<close>

lemmas transfer_defs =
  transfer_def transfer_credit_def withdraw_def deposit_def upd_defs Let_def

text \<open>A transfer of a positive amount that raises has not touched the store.\<close>

lemma transfer_positive_fails_clean:
  assumes "amt > 0" and "fst (transfer self amt rcv today s) \<noteq> None"
  shows "transfer self amt rcv today s = (Some TransactionError, s)"
proof (cases "rcv = self")
  case True
  then show ?thesis by (simp add: transfer_def)
next
  case False
  show ?thesis
  proof (cases "bank (accounts s self) \<noteq> bank (accounts s rcv)")
    case True
    show ?thesis
    proof (cases "fst (withdraw self (amt + 5) False today s)")
      case None
      then obtain s1 where w: "withdraw self (amt + 5) False today s = (None, s1)"
        by (cases "withdraw self (amt + 5) False today s") simp
      with assms \<open>rcv \<noteq> self\<close> True show ?thesis
        by (simp add: transfer_def Let_def transfer_credit_positive)
    next
      case (Some e)
      then have "withdraw self (amt + 5) False today s = (Some TransactionError, s)"
        by (simp add: withdraw_fails_clean)
      with \<open>rcv \<noteq> self\<close> True show ?thesis by (simp add: transfer_def Let_def)
    qed
  next
    case same: False
    show ?thesis
    proof (cases "fst (withdraw self amt False today s)")
      case None
      then obtain s1 where w: "withdraw self amt False today s = (None, s1)"
        by (cases "withdraw self amt False today s") simp
      with assms \<open>rcv \<noteq> self\<close> same show ?thesis
        by (simp add: transfer_def Let_def transfer_credit_positive)
    next
      case (Some e)
      then have "withdraw self amt False today s = (Some TransactionError, s)"
        by (simp add: withdraw_fails_clean)
      with \<open>rcv \<noteq> self\<close> same show ?thesis by (simp add: transfer_def Let_def)
    qed
  qed
qed




text \<open>
  C2 as stated does not hold for two distinct accounts of one person: the test of
  \<^verbatim>\<open>transfer\<close> lets every receiver other than the sending account pass. In
  \<open>two_account_ledger\<close> person 0 owns accounts 0 and 1, and sending 10 from account 0
  to account 1 succeeds and moves the money (with the fee, the banks being different).
\<close>

theorem transfer_same_person_counterexample:
  "person (accounts two_account_ledger 0) = person (accounts two_account_ledger 1)
   \<and> (0::aid) \<noteq> 1
   \<and> fst (transfer 0 10 1 2 two_account_ledger) = None
   \<and> balance (accounts two_account_ledger 0) = 100
   \<and> balance (accounts (snd (transfer 0 10 1 2 two_account_ledger)) 0) = 85
   \<and> balance (accounts two_account_ledger 1) = 0
   \<and> balance (accounts (snd (transfer 0 10 1 2 two_account_ledger)) 1) = 10"
  by (simp add: transfer_defs two_account_ledger_accounts)

text \<open>
  C2, amended. For every account and amount, a transfer to the sender's own account
  raises \<^verbatim>\<open>TransactionError\<close> and leaves the whole store, hence every balance and every
  account and bank history, as it was.
\<close>

theorem transfer_to_self_rejected:
  "transfer self amt self today s = (Some TransactionError, s)"
  by (simp add: transfer_def)

text \<open>
  C3. A transfer that raises is to leave every balance and history as before, also for
  amounts that are not positive. Between different banks the code debits the sender by
  the amount plus 5 and appends the record to the receiver's bank before
  \<^verbatim>\<open>deposit\<close> refuses the amount: in \<open>two_bank_ledger\<close> a transfer of 0 from account 0
  to account 1 raises, yet account 0 has lost 5 and bank 1 holds a record of the
  transfer. (For positive amounts the property holds: lemma
  \<open>transfer_positive_fails_clean\<close>.)
\<close>

theorem transfer_partial_commit:
  "fst (transfer 0 0 1 2 two_bank_ledger) = Some TransactionError
   \<and> balance (accounts two_bank_ledger 0) = 100
   \<and> balance (accounts (snd (transfer 0 0 1 2 two_bank_ledger)) 0) = 95
   \<and> balance (accounts (snd (transfer 0 0 1 2 two_bank_ledger)) 1) =
       balance (accounts two_bank_ledger 1)
   \<and> bank_transactions (banks two_bank_ledger 1) = []
   \<and> bank_transactions (banks (snd (transfer 0 0 1 2 two_bank_ledger)) 1) =
       [Transaction_init 0 2 0 1 False]"
  by (simp add: transfer_defs two_bank_ledger_accounts two_bank_ledger_banks)





section \<open>Balances stay non-negative\<close>

lemma call_state_balance:
  "0 \<le> balance (accounts s a) \<Longrightarrow> 0 \<le> balance (accounts (call_state c s) a)"
  by (cases c)
     (auto simp add: transfer_def transfer_credit_def withdraw_def deposit_def
        add_customer_def remove_customer_def upd_defs Let_def split: if_splits)

text \<open>
  C6. Whatever calls are made, in whatever order and whether they return or raise, an
  account whose balance is not negative before them has a balance that is not negative
  after them.
\<close>

theorem balance_never_negative:
  "0 \<le> balance (accounts s a) \<Longrightarrow> 0 \<le> balance (accounts (calls cs s) a)"
  by (induction cs arbitrary: s) (simp_all add: call_state_balance)

theorem balance_never_negative_witness:
  "0 \<le> balance (accounts two_bank_ledger 0)
   \<and> 0 \<le> balance (accounts
         (calls [Withdraw 0 101 True 2, Transfer 0 0 1 2, Transfer 0 95 1 3, Deposit 1 (- 7) True 3]
            two_bank_ledger) 0)"
  using balance_never_negative[of two_bank_ledger 0
          "[Withdraw 0 101 True 2, Transfer 0 0 1 2, Transfer 0 95 1 3, Deposit 1 (- 7) True 3]"]
  by (simp add: two_bank_ledger_accounts)

section \<open>Turnover reports\<close>

lemma fold_cond_snoc:
  "fold (\<lambda>i acc. if P i then acc @ [i] else acc) xs acc0 = acc0 @ filter P xs"
  by (induction xs arbitrary: acc0) simp_all

lemma account_statement_filter:
  "account_statement self f t s =
     filter (\<lambda>i. f \<le> date i \<and> date i \<le> t) (transactions (accounts s self))"
  by (simp add: account_statement_def fold_cond_snoc)

lemma fold_window_add:
  "fold (\<lambda>i c. if W i then (if C i then c + g i else c) else c) xs c0 =
     c0 + sum_list (map g (filter C (filter W xs)))"
  for c0 :: int
  by (induction xs arbitrary: c0) simp_all

lemma fold_window_sub:
  "fold (\<lambda>i c. if W i then (if C i then c - g i else c) else c) xs c0 =
     c0 - sum_list (map g (filter C (filter W xs)))"
  for c0 :: int
  by (induction xs arbitrary: c0) simp_all

lemma debit_sum:
  "get_debit_turnover self f t s =
     sum_list (map amount (filter (\<lambda>i. (amount i > 0 \<and> is_from_atm i)
                      \<or> (self = receiver_account i \<and> \<not> is_from_atm i)) (account_statement self f t s)))"
  unfolding get_debit_turnover_def account_statement_filter fold_window_add by simp

lemma credit_sum:
  "get_credit_turnover self f t s =
     - sum_list (map (\<lambda>i. \<bar>amount i\<bar>) (filter (\<lambda>i. amount i < 0
                      \<or> (self = sender_account i \<and> \<not> is_from_atm i)) (account_statement self f t s)))"
  unfolding get_credit_turnover_def account_statement_filter fold_window_sub by simp

lemma credit_list_spec:
  "list_all (\<lambda>t. \<not> is_from_atm t \<longrightarrow> 0 < amount t) ts \<Longrightarrow>
   - sum_list (map (\<lambda>i. \<bar>amount i\<bar>) (filter (\<lambda>i. amount i < 0
                      \<or> (self = sender_account i \<and> \<not> is_from_atm i)) (filter W ts))) =
   - (sum_list (map (\<lambda>t. - amount t) (filter (\<lambda>t. is_from_atm t \<and> amount t < 0) (filter W ts)))
            + sum_list (map amount (filter (\<lambda>t. sender_account t = self \<and> \<not> is_from_atm t) (filter W ts))))"
  for ts :: "int Transaction list"
  by (induction ts) auto

lemma credit_refines_spec:
  "transfers_positive (transactions (accounts s self)) \<Longrightarrow>
   get_credit_turnover self f t s = credit_turnover_spec self f t s"
  unfolding credit_sum account_statement_filter credit_turnover_spec_def Let_def transfers_positive_def
  by (rule credit_list_spec)

lemma transfer_transactions:
  "transactions (accounts (snd (transfer self amt rcv today s)) a) = transactions (accounts s a)
   \<or> (amt > 0 \<and> transactions (accounts (snd (transfer self amt rcv today s)) a) =
        transactions (accounts s a) @ [Transaction_init amt today self rcv False])"
proof (cases "rcv = self")
  case True
  then show ?thesis by (simp add: transfer_def)
next
  case False
  show ?thesis
  proof (cases "bank (accounts s self) \<noteq> bank (accounts s rcv)")
    case True
    obtain r s1 where w: "withdraw self (amt + 5) False today s = (r, s1)"
      by (cases "withdraw self (amt + 5) False today s")
    have s1: "transactions (accounts s1 a) = transactions (accounts s a)"
      using withdraw_False_transactions[of self "amt + 5" today s a] w by simp
    show ?thesis
      using False True w s1
      by (cases r) (simp_all add: transfer_def Let_def transfer_credit_transactions bank_append_transactions)
  next
    case same: False
    obtain r s1 where w: "withdraw self amt False today s = (r, s1)"
      by (cases "withdraw self amt False today s")
    have s1: "transactions (accounts s1 a) = transactions (accounts s a)"
      using withdraw_False_transactions[of self amt today s a] w by simp
    show ?thesis
      using False same w s1
      by (cases r) (simp_all add: transfer_def Let_def transfer_credit_transactions)
  qed
qed

lemma call_state_transfers_positive:
  assumes "transfers_positive (transactions (accounts s a))"
  shows "transfers_positive (transactions (accounts (call_state c s) a))"
proof (cases c)
  case (Deposit x amt atm d)
  with assms show ?thesis
    by (auto simp add: transfers_positive_def deposit_def upd_defs Let_def)
next
  case (Withdraw x amt atm d)
  with assms show ?thesis
    by (auto simp add: transfers_positive_def withdraw_def upd_defs Let_def)
next
  case (Transfer x amt r d)
  with assms transfer_transactions[of x amt r d s a] show ?thesis
    by (auto simp add: transfers_positive_def Transaction_init_def)
next
  case (AddCustomer b p num)
  with assms show ?thesis
    by (auto simp add: transfers_positive_def add_customer_def upd_defs Let_def)
next
  case (RemoveCustomer b p)
  with assms show ?thesis
    by (simp add: transfers_positive_def remove_customer_def Let_def)
qed

lemma calls_transfers_positive:
  "transfers_positive (transactions (accounts s a)) \<Longrightarrow>
   transfers_positive (transactions (accounts (calls cs s) a))"
  by (induction cs arbitrary: s) (simp_all add: call_state_transfers_positive)

text \<open>
  C8. The net turnover is the debit turnover plus the credit turnover. On every history
  that calls of the ledger produce (from a history in which the records of transfers
  have positive amounts, such as the empty history of a new account), the credit
  turnover is the negated sum of the ATM withdrawals and of the transfers the account
  sent. A window holding exactly an ATM deposit of 100 and an ATM withdrawal of 30 gives
  the net turnover 70.
\<close>

theorem net_turnover_sum:
  "get_net_turnover a f t s = get_debit_turnover a f t s + get_credit_turnover a f t s
   \<and> (transfers_positive (transactions (accounts s0 a)) \<longrightarrow>
        get_credit_turnover a f t (calls cs s0) = credit_turnover_spec a f t (calls cs s0))
   \<and> ((account_statement a f t s = [x, y] \<or> account_statement a f t s = [y, x])
        \<and> is_from_atm x \<and> amount x = 100 \<and> is_from_atm y \<and> amount y = - 30 \<longrightarrow>
        get_net_turnover a f t s = 70)"
proof (intro conjI impI)
  show "get_net_turnover a f t s = get_debit_turnover a f t s + get_credit_turnover a f t s"
    by (simp add: get_net_turnover_def)
next
  assume "transfers_positive (transactions (accounts s0 a))"
  then show "get_credit_turnover a f t (calls cs s0) = credit_turnover_spec a f t (calls cs s0)"
    by (intro credit_refines_spec calls_transfers_positive)
next
  assume "(account_statement a f t s = [x, y] \<or> account_statement a f t s = [y, x])
        \<and> is_from_atm x \<and> amount x = 100 \<and> is_from_atm y \<and> amount y = - 30"
  then show "get_net_turnover a f t s = 70"
    by (auto simp add: get_net_turnover_def debit_sum credit_sum)
qed

theorem net_turnover_sum_witness:
  "transfers_positive (transactions (accounts new_ledger 0))
   \<and> get_credit_turnover 0 1 3
         (calls [AddCustomer 0 0 ''EE1'', Deposit 0 100 True 2, Withdraw 0 30 True 2] new_ledger) = - 30
   \<and> credit_turnover_spec 0 1 3
         (calls [AddCustomer 0 0 ''EE1'', Deposit 0 100 True 2, Withdraw 0 30 True 2] new_ledger) = - 30
   \<and> account_statement 0 1 3
         (calls [AddCustomer 0 0 ''EE1'', Deposit 0 100 True 2, Withdraw 0 30 True 2] new_ledger) =
       [Transaction_init 100 2 0 0 True, Transaction_init (- 30) 2 0 0 True]
   \<and> get_net_turnover 0 1 3
         (calls [AddCustomer 0 0 ''EE1'', Deposit 0 100 True 2, Withdraw 0 30 True 2] new_ledger) = 70"
  using net_turnover_sum[of 0 1 3
      "calls [AddCustomer 0 0 ''EE1'', Deposit 0 100 True 2, Withdraw 0 30 True 2] new_ledger"
      new_ledger "[AddCustomer 0 0 ''EE1'', Deposit 0 100 True 2, Withdraw 0 30 True 2]"
      "Transaction_init 100 2 0 0 True" "Transaction_init (- 30) 2 0 0 True"]
  by (simp add: new_ledger_def transfers_positive_def credit_turnover_spec_def
      account_statement_def get_credit_turnover_def
      add_customer_def deposit_def withdraw_def upd_defs Let_def)

section \<open>Bank: add_customer\<close>

lemma add_customer_known:
  "p \<in> set (customers (banks s b)) \<Longrightarrow> add_customer b p num s = (False, s)"
  by (simp add: add_customer_def)

lemma add_customer_customers:
  "customers (banks (snd (add_customer b p num s)) b) =
     (if p \<in> set (customers (banks s b)) then customers (banks s b)
      else customers (banks s b) @ [p])"
  by (simp add: add_customer_def Let_def)

lemma add_customers_length:
  "length (customers (banks (calls (map (\<lambda>(p, num). AddCustomer b p num) ps) s) b)) \<le>
     length (customers (banks s b)) + card (set (map fst ps) - set (customers (banks s b)))"
proof (induction ps arbitrary: s)
  case Nil
  then show ?case by simp
next
  case (Cons x ps)
  obtain p num where x: "x = (p, num)" by (cases x)
  let ?s1 = "snd (add_customer b p num s)"
  let ?C = "set (customers (banks s b))"
  let ?P = "set (map fst ps)"
  show ?case
  proof (cases "p \<in> ?C")
    case True
    then have "?s1 = s" by (simp add: add_customer_known)
    moreover have "insert p ?P - ?C = ?P - ?C" using True by auto
    ultimately show ?thesis using Cons.IH[of s] x by simp
  next
    case False
    have c1: "customers (banks ?s1 b) = customers (banks s b) @ [p]"
      using False by (simp add: add_customer_customers)
    have d: "?P - set (customers (banks ?s1 b)) = ?P - ?C - {p}"
      using c1 by auto
    have "insert p ?P - ?C = insert p (?P - ?C - {p})" using False by auto
    moreover have "card (insert p (?P - ?C - {p})) = Suc (card (?P - ?C - {p}))"
      by (rule card_insert_disjoint) auto
    ultimately have "card (insert p ?P - ?C) = Suc (card (?P - ?C - {p}))" by simp
    then show ?thesis using Cons.IH[of ?s1] x c1 d by simp
  qed
qed

text \<open>
  C9. \<^verbatim>\<open>add_customer\<close> returns \<open>False\<close> and changes nothing for a person already in
  the bank's customer list. Otherwise it returns \<open>True\<close>, allocates exactly one account
  (balance 0, owned by the person, at this bank), stores it in the person, and appends
  the person once to the customers; nothing else changes. A second call with the same
  person returns \<open>False\<close> and changes nothing, and after any number of calls the customer
  list has grown by at most the number of distinct persons passed.
\<close>

theorem add_customer_once:
  assumes "add_customer b p num s = (r, s')"
  shows "(p \<in> set (customers (banks s b)) \<longrightarrow> r = False \<and> s' = s)
   \<and> (p \<notin> set (customers (banks s b)) \<longrightarrow>
        r = True
      \<and> accounts s' (next_account s) = Account_init 0 p b num
      \<and> balance (accounts s' (next_account s)) = 0
      \<and> (\<forall>a. a \<noteq> next_account s \<longrightarrow> accounts s' a = accounts s a)
      \<and> next_account s' = Suc (next_account s)
      \<and> bank_account (persons s' p) = Some (next_account s)
      \<and> (\<forall>q. q \<noteq> p \<longrightarrow> persons s' q = persons s q)
      \<and> customers (banks s' b) = customers (banks s b) @ [p]
      \<and> bank_transactions (banks s' b) = bank_transactions (banks s b)
      \<and> (\<forall>c. c \<noteq> b \<longrightarrow> banks s' c = banks s c))
   \<and> add_customer b p num2 s' = (False, s')
   \<and> length (customers (banks (calls (map (\<lambda>(q, n). AddCustomer b q n) ps) s) b)) \<le>
        length (customers (banks s b)) + card (set (map fst ps))"
proof -
  have "length (customers (banks (calls (map (\<lambda>(q, n). AddCustomer b q n) ps) s) b)) \<le>
        length (customers (banks s b)) + card (set (map fst ps) - set (customers (banks s b)))"
    by (rule add_customers_length)
  moreover have "card (set (map fst ps) - set (customers (banks s b))) \<le> card (set (map fst ps))"
    by (rule card_mono) auto
  ultimately have len: "length (customers (banks (calls (map (\<lambda>(q, n). AddCustomer b q n) ps) s) b)) \<le>
        length (customers (banks s b)) + card (set (map fst ps))"
    by linarith
  have "p \<in> set (customers (banks s' b))"
    using assms add_customer_customers[of b p num s] by (auto split: if_splits)
  then have twice: "add_customer b p num2 s' = (False, s')"
    by (rule add_customer_known)
  show ?thesis
    using assms len twice
    by (auto simp add: add_customer_def Account_init_def Let_def split: if_splits)
qed

theorem add_customer_once_witness:
  "fst (add_customer 0 0 ''EE1'' new_ledger) = True
   \<and> customers (banks (snd (add_customer 0 0 ''EE1'' new_ledger)) 0) = [0]
   \<and> balance (accounts (snd (add_customer 0 0 ''EE1'' new_ledger)) 0) = 0
   \<and> bank_account (persons (snd (add_customer 0 0 ''EE1'' new_ledger)) 0) = Some 0
   \<and> (0::pid) \<in> set (customers (banks (snd (add_customer 0 0 ''EE1'' new_ledger)) 0))
   \<and> add_customer 0 0 ''EE2'' (snd (add_customer 0 0 ''EE1'' new_ledger)) =
       (False, snd (add_customer 0 0 ''EE1'' new_ledger))"
  using add_customer_once[of 0 0 "''EE1''" new_ledger "fst (add_customer 0 0 ''EE1'' new_ledger)"
          "snd (add_customer 0 0 ''EE1'' new_ledger)" "''EE2''" "[]"]
        add_customer_once[of 0 0 "''EE2''" "snd (add_customer 0 0 ''EE1'' new_ledger)" False
          "snd (add_customer 0 0 ''EE1'' new_ledger)" "''EE3''" "[]"]
  by (simp add: new_ledger_def add_customer_def upd_defs Let_def)

text \<open>
  An account reference held by a person points to an allocated account, and every call
  keeps it so; \<open>new_ledger\<close>, where no person holds an account, is such a store.
\<close>

lemma call_state_allocated:
  assumes "\<forall>p a. bank_account (persons s p) = Some a \<longrightarrow> a < next_account s"
  shows "\<forall>p a. bank_account (persons (call_state c s) p) = Some a \<longrightarrow>
               a < next_account (call_state c s)"
proof (cases c)
  case (AddCustomer b q num)
  with assms show ?thesis
    by (auto simp add: add_customer_def Let_def less_Suc_eq)
next
  case (RemoveCustomer b q)
  with assms show ?thesis
    by (auto simp add: remove_customer_def Let_def)
next
  case (Deposit x amt atm d)
  with assms show ?thesis
    by (auto simp add: deposit_def upd_defs Let_def)
next
  case (Withdraw x amt atm d)
  with assms show ?thesis
    by (auto simp add: withdraw_def upd_defs Let_def)
next
  case (Transfer x amt r d)
  have "persons (snd (transfer x amt r d s)) = persons s
        \<and> next_account (snd (transfer x amt r d s)) = next_account s"
    by (simp add: transfer_def transfer_credit_def withdraw_def deposit_def upd_defs Let_def
        split: prod.splits option.splits)
  with assms Transfer show ?thesis by simp
qed

lemma calls_allocated:
  "\<forall>p a. bank_account (persons s p) = Some a \<longrightarrow> a < next_account s \<Longrightarrow>
   \<forall>p a. bank_account (persons (calls cs s) p) = Some a \<longrightarrow> a < next_account (calls cs s)"
proof (induction cs arbitrary: s)
  case Nil
  then show ?case by simp
next
  case (Cons c cs)
  from Cons.prems have "\<forall>p a. bank_account (persons (call_state c s) p) = Some a \<longrightarrow>
               a < next_account (call_state c s)"
    by (rule call_state_allocated)
  then show ?case using Cons.IH[of "call_state c s"] by simp
qed

text \<open>
  C10. A person who is a customer of bank \<open>b1\<close> and holds the allocated account \<open>a1\<close>
  is added by another bank \<open>b2\<close>: the call returns \<open>True\<close>, the person's account
  reference is replaced by a new account with balance 0 at \<open>b2\<close>, the person is still
  in the customer list of \<open>b1\<close>, and the account \<open>a1\<close> keeps its balance and history.
\<close>

theorem add_customer_second_bank:
  assumes "b2 \<noteq> b1"
    and "p \<in> set (customers (banks s b1))"
    and "p \<notin> set (customers (banks s b2))"
    and "bank_account (persons s p) = Some a1"
    and "a1 < next_account s"
    and "add_customer b2 p num s = (r, s')"
  shows "r = True
   \<and> bank_account (persons s' p) = Some (next_account s)
   \<and> next_account s \<noteq> a1
   \<and> accounts s' (next_account s) = Account_init 0 p b2 num
   \<and> balance (accounts s' (next_account s)) = 0
   \<and> bank (accounts s' (next_account s)) = b2
   \<and> customers (banks s' b1) = customers (banks s b1)
   \<and> p \<in> set (customers (banks s' b1))
   \<and> accounts s' a1 = accounts s a1"
  using assms by (auto simp add: add_customer_def Account_init_def Let_def)

theorem add_customer_second_bank_witness:
  "(1::bid) \<noteq> 0
   \<and> (0::pid) \<in> set (customers (banks (calls [AddCustomer 0 0 ''EE1'', Deposit 0 100 True 1] new_ledger) 0))
   \<and> (0::pid) \<notin> set (customers (banks (calls [AddCustomer 0 0 ''EE1'', Deposit 0 100 True 1] new_ledger) 1))
   \<and> bank_account (persons (calls [AddCustomer 0 0 ''EE1'', Deposit 0 100 True 1] new_ledger) 0) = Some 0
   \<and> (0::aid) < next_account (calls [AddCustomer 0 0 ''EE1'', Deposit 0 100 True 1] new_ledger)
   \<and> fst (add_customer 1 0 ''EE2'' (calls [AddCustomer 0 0 ''EE1'', Deposit 0 100 True 1] new_ledger)) = True
   \<and> bank_account (persons two_account_ledger 0) = Some 1
   \<and> balance (accounts two_account_ledger 1) = 0
   \<and> balance (accounts two_account_ledger 0) = 100
   \<and> transactions (accounts two_account_ledger 0) = [Transaction_init 100 1 0 0 True]"
  using add_customer_second_bank[of 1 0 0
          "calls [AddCustomer 0 0 ''EE1'', Deposit 0 100 True 1] new_ledger" 0 "''EE2''"
          "fst (add_customer 1 0 ''EE2'' (calls [AddCustomer 0 0 ''EE1'', Deposit 0 100 True 1] new_ledger))"
          "snd (add_customer 1 0 ''EE2'' (calls [AddCustomer 0 0 ''EE1'', Deposit 0 100 True 1] new_ledger))"]
  by (simp add: ledger_defs add_customer_def deposit_def upd_defs Let_def)

end
